theory Spec2Isabelle
  imports Main
begin

section \<open>JavaScript string primitives used by the adapter\<close>

text \<open>
  A JavaScript string is modelled as a \<open>string\<close>: a list of code units, one \<open>char\<close> each
  (the Latin-1 range), so that \<open>length\<close> is the source's \<open>.length\<close>.
\<close>

definition isWhiteSpace :: "char \<Rightarrow> bool" where
  \<comment> \<open>the white space and line terminators that \<open>trim\<close>/\<open>trimStart\<close> remove: TAB, LF, VT, FF, CR, SP, NBSP\<close>
  "isWhiteSpace c = ((of_char c :: nat) \<in> {9, 10, 11, 12, 13, 32, 160})"

definition trimStart :: "string \<Rightarrow> string" where
  "trimStart s = dropWhile isWhiteSpace s"

definition trimEnd :: "string \<Rightarrow> string" where
  "trimEnd s = rev (dropWhile isWhiteSpace (rev s))"

definition trim :: "string \<Rightarrow> string" where
  "trim s = trimEnd (trimStart s)"

definition lowerChar :: "char \<Rightarrow> char" where
  "lowerChar c =
     (let n = (of_char c :: nat)
      in if (65 \<le> n \<and> n \<le> 90) \<or> (192 \<le> n \<and> n \<le> 222 \<and> n \<noteq> 215)
         then char_of (n + 32) else c)"

definition toLowerCase :: "string \<Rightarrow> string" where
  "toLowerCase s = map lowerChar s"

fun startsWith :: "string \<Rightarrow> string \<Rightarrow> bool" where
  "startsWith s [] = True"
| "startsWith [] (p # ps) = False"
| "startsWith (c # cs) (p # ps) = (c = p \<and> startsWith cs ps)"

fun includes_str :: "string \<Rightarrow> string \<Rightarrow> bool" where
  \<comment> \<open>\<open>s.includes(sub)\<close>: \<open>sub\<close> occurs somewhere in \<open>s\<close>\<close>
  "includes_str [] sub = (sub = [])"
| "includes_str (c # cs) sub = (startsWith (c # cs) sub \<or> includes_str cs sub)"

fun replaceFirst :: "string \<Rightarrow> string \<Rightarrow> string \<Rightarrow> string" where
  \<comment> \<open>\<open>s.replace(pat, rep)\<close> with a string pattern: only the first occurrence, wherever it is\<close>
  "replaceFirst [] pat rep = (if pat = [] then rep else [])"
| "replaceFirst (c # cs) pat rep =
     (if startsWith (c # cs) pat then rep @ drop (length pat) (c # cs)
      else c # replaceFirst cs pat rep)"

definition orDefault :: "'a option \<Rightarrow> 'a \<Rightarrow> 'a" where
  \<comment> \<open>the nullish coalescing \<open>x ?? d\<close>\<close>
  "orDefault x d = (case x of Some v \<Rightarrow> v | None \<Rightarrow> d)"

definition truthyStr :: "string option \<Rightarrow> bool" where
  \<comment> \<open>truthiness of an optional string: absent and the empty string are falsy\<close>
  "truthyStr x = (case x of Some s \<Rightarrow> s \<noteq> [] | None \<Rightarrow> False)"

section \<open>Configuration and event types (types.ts)\<close>

record GoogleChatAccountConfig =
  cfg_name :: "string option"
  cfg_enabled :: "bool option"
  cfg_projectId :: "string option"
  cfg_subscriptionName :: "string option"
  cfg_credentialsPath :: "string option"
  dmPolicy :: "string option"
  allowFrom :: "string list option"
  spacePolicy :: "string option"
  allowSpaces :: "string list option"
  historyLimit :: "int option"
  dmHistoryLimit :: "int option"
  textChunkLimit :: "int option"
  messagePrefix :: "string option"

text \<open>
  \<open>GoogleChatConfig\<close>: the provider-wide fields and the optional per-account map; the map
  is an association list in the object's key order.
\<close>

record GoogleChatConfig =
  base :: GoogleChatAccountConfig
  accounts :: "(string \<times> GoogleChatAccountConfig) list option"

record ClawdbotConfig =
  googlechat :: "GoogleChatConfig option"

text \<open>
  The event as it arrives from \<open>JSON.parse\<close> or the request body. The cast to
  \<open>GoogleChatEvent\<close> checks nothing, so every property may be missing at run time; a
  property that is present has the declared type.
\<close>

record RawSender =
  s_name :: "string option"
  s_displayName :: "string option"
  s_email :: "string option"
  s_type :: "string option"

record RawSpace =
  sp_name :: "string option"
  sp_type :: "string option"
  sp_displayName :: "string option"

record RawThread =
  th_name :: "string option"

record RawUser =
  u_name :: "string option"
  u_displayName :: "string option"
  u_email :: "string option"

record GoogleChatMessage =
  m_name :: "string option"
  m_sender :: "RawSender option"
  m_createTime :: "string option"
  m_text :: "string option"
  m_space :: "RawSpace option"
  m_thread :: "RawThread option"
  m_argumentText :: "string option"

record GoogleChatEvent =
  e_type :: "string option"
  e_eventTime :: "string option"
  e_message :: "GoogleChatMessage option"
  e_user :: "RawUser option"
  e_space :: "RawSpace option"

section \<open>Resolved accounts and normalized messages\<close>

record ResolvedGoogleChatAccount =
  acc_accountId :: string
  acc_enabled :: bool
  acc_name :: "string option"
  acc_projectId :: string
  acc_subscriptionName :: string
  acc_credentialsPath :: "string option"
  acc_config :: GoogleChatAccountConfig

datatype chat_kind = Dm | Group

record NormSender =
  sender_id :: string
  sender_name :: "string option"
  sender_email :: "string option"

record NormChat =
  chat_id :: string
  chat_name :: string
  chat_type :: chat_kind

record NormThread =
  thread_id :: "string option"

record NormalizedGoogleChatMessage =
  msg_provider :: string
  msg_accountId :: string
  msg_messageId :: "string option"
  msg_timestamp :: "int option"
  msg_sender :: NormSender
  msg_chat :: NormChat
  msg_thread :: "NormThread option"
  msg_text :: string
  msg_raw :: GoogleChatEvent

section \<open>Policy check (monitor.ts)\<close>

definition checkMessagePolicy ::
  "NormalizedGoogleChatMessage \<Rightarrow> ResolvedGoogleChatAccount \<Rightarrow> bool" where
  "checkMessagePolicy message account =
     (let policy =
            (if chat_type (msg_chat message) = Dm
             then orDefault (dmPolicy (acc_config account)) ''pairing''
             else orDefault (spacePolicy (acc_config account)) ''disabled'')
      in if policy = ''disabled'' then False
         else if policy = ''open'' then True
         else if policy = ''allowlist'' then
           (if chat_type (msg_chat message) = Dm
            then orDefault (sender_email (msg_sender message)) []
                   \<in> set (orDefault (allowFrom (acc_config account)) [])
            else chat_id (msg_chat message)
                   \<in> set (orDefault (allowSpaces (acc_config account)) []))
         else if policy = ''pairing'' then False
         else False)"

definition normalizeEntry :: "string \<Rightarrow> string" where
  \<comment> \<open>the plugin's \<open>normalizeEntry\<close> / \<open>normalizeAllowEntry\<close>: \<open>raw.toLowerCase().trim()\<close>\<close>
  "normalizeEntry raw = trim (toLowerCase raw)"

section \<open>Message normalizer (monitor.ts and webhook-server.ts)\<close>

datatype js_error = TypeError

text \<open>
  Reading a property of \<open>undefined\<close> raises a TypeError: \<open>msg.sender.type\<close> when the
  sender is missing, \<open>msg.space.name.replace\<close> when the space or its name is missing,
  \<open>msg.sender.name.replace\<close> when the sender's name is missing. The result is \<open>Inl\<close> of
  the error, or \<open>Inr\<close> of the message or \<open>null\<close>. The parameter \<open>getTime\<close> is
  \<open>new Date(s).getTime()\<close>, with \<open>None\<close> for NaN.
\<close>

definition monitor_normalizeMessage ::
  "(string option \<Rightarrow> int option) \<Rightarrow> GoogleChatEvent \<Rightarrow> string
     \<Rightarrow> js_error + NormalizedGoogleChatMessage option" where
  "monitor_normalizeMessage getTime event accountId =
     (if e_type event \<noteq> Some ''MESSAGE'' then Inr None
      else (case e_message event of
        None \<Rightarrow> Inr None
      | Some msg \<Rightarrow>
         (case m_sender msg of
            None \<Rightarrow> Inl TypeError
          | Some sender \<Rightarrow>
             (if s_type sender = Some ''BOT'' then Inr None
              else (case m_space msg of
               None \<Rightarrow> Inl TypeError
             | Some space \<Rightarrow>
                (case sp_name space of
                   None \<Rightarrow> Inl TypeError
                 | Some spaceName \<Rightarrow>
                    (let spaceId = replaceFirst spaceName ''spaces/'' [];
                         isDM = (sp_type space = Some ''DM'')
                     in (case s_name sender of
                          None \<Rightarrow> Inl TypeError
                        | Some senderName \<Rightarrow>
                           Inr (Some \<lparr>
                             msg_provider = ''googlechat'',
                             msg_accountId = accountId,
                             msg_messageId = m_name msg,
                             msg_timestamp = getTime (m_createTime msg),
                             msg_sender = \<lparr>
                               sender_id = replaceFirst senderName ''users/'' [],
                               sender_name = s_displayName sender,
                               sender_email = s_email sender \<rparr>,
                             msg_chat = \<lparr>
                               chat_id = spaceId,
                               chat_name = (if truthyStr (sp_displayName space)
                                            then the (sp_displayName space) else spaceId),
                               chat_type = (if isDM then Dm else Group) \<rparr>,
                             msg_thread = (case m_thread msg of
                                             Some t \<Rightarrow> Some \<lparr> thread_id = th_name t \<rparr>
                                           | None \<Rightarrow> None),
                             msg_text = (if truthyStr (m_argumentText msg)
                                         then the (m_argumentText msg)
                                         else if truthyStr (m_text msg) then the (m_text msg)
                                         else []),
                             msg_raw = event \<rparr>)))))))))"

definition webhook_normalizeMessage ::
  "(string option \<Rightarrow> int option) \<Rightarrow> GoogleChatEvent \<Rightarrow> string
     \<Rightarrow> js_error + NormalizedGoogleChatMessage option" where
  "webhook_normalizeMessage getTime event accountId =
     (if e_type event \<noteq> Some ''MESSAGE'' then Inr None
      else (case e_message event of
        None \<Rightarrow> Inr None
      | Some msg \<Rightarrow>
         (case m_sender msg of
            None \<Rightarrow> Inl TypeError
          | Some sender \<Rightarrow>
             (if s_type sender = Some ''BOT'' then Inr None
              else (case m_space msg of
               None \<Rightarrow> Inl TypeError
             | Some space \<Rightarrow>
                (case sp_name space of
                   None \<Rightarrow> Inl TypeError
                 | Some spaceName \<Rightarrow>
                    (let spaceId = replaceFirst spaceName ''spaces/'' [];
                         isDM = (sp_type space = Some ''DM'')
                     in (case s_name sender of
                          None \<Rightarrow> Inl TypeError
                        | Some senderName \<Rightarrow>
                           Inr (Some \<lparr>
                             msg_provider = ''googlechat'',
                             msg_accountId = accountId,
                             msg_messageId = m_name msg,
                             msg_timestamp = getTime (m_createTime msg),
                             msg_sender = \<lparr>
                               sender_id = replaceFirst senderName ''users/'' [],
                               sender_name = s_displayName sender,
                               sender_email = s_email sender \<rparr>,
                             msg_chat = \<lparr>
                               chat_id = spaceId,
                               chat_name = (if truthyStr (sp_displayName space)
                                            then the (sp_displayName space) else spaceId),
                               chat_type = (if isDM then Dm else Group) \<rparr>,
                             msg_thread = (case m_thread msg of
                                             Some t \<Rightarrow> Some \<lparr> thread_id = th_name t \<rparr>
                                           | None \<Rightarrow> None),
                             msg_text = (if truthyStr (m_argumentText msg)
                                         then the (m_argumentText msg)
                                         else if truthyStr (m_text msg) then the (m_text msg)
                                         else []),
                             msg_raw = event \<rparr>)))))))))"

text \<open>
  What the declared type \<open>GoogleChatMessage\<close> requires of a message: a sender with a
  name, and a space with a name.
\<close>

definition wellTypedMessage :: "GoogleChatMessage \<Rightarrow> bool" where
  "wellTypedMessage msg =
     (case m_sender msg of
        None \<Rightarrow> False
      | Some sender \<Rightarrow>
         s_name sender \<noteq> None \<and>
         (case m_space msg of None \<Rightarrow> False | Some space \<Rightarrow> sp_name space \<noteq> None))"

definition wellTypedEvent :: "GoogleChatEvent \<Rightarrow> bool" where
  "wellTypedEvent event =
     (case e_message event of None \<Rightarrow> True | Some msg \<Rightarrow> wellTypedMessage msg)"

definition senderIsBot :: "GoogleChatMessage \<Rightarrow> bool" where
  \<comment> \<open>the message has a sender, of type BOT\<close>
  "senderIsBot msg =
     (case m_sender msg of None \<Rightarrow> False | Some sender \<Rightarrow> s_type sender = Some ''BOT'')"

section \<open>Pull transport message handler (monitor.ts)\<close>

datatype delivery = Ack | Nack

text \<open>
  The \<open>messageHandler\<close> of \<open>monitorGoogleChatProvider\<close>, on one broker message. The
  argument \<open>parsed\<close> is the outcome of \<open>JSON.parse(message.data.toString())\<close>, with
  \<open>None\<close> when it throws. Whatever is thrown inside the \<open>try\<close> block ends in
  \<open>message.nack()\<close>; otherwise the message is acknowledged, allowed or not. The field
  \<open>hr_logged\<close> says whether the "Received message from" line was written, which happens
  for an allowed message only.
\<close>

record handler_result =
  hr_delivery :: delivery
  hr_logged :: bool

definition messageHandler ::
  "(string option \<Rightarrow> int option) \<Rightarrow> ResolvedGoogleChatAccount
     \<Rightarrow> GoogleChatEvent option \<Rightarrow> handler_result" where
  "messageHandler getTime account parsed =
     (case parsed of
        None \<Rightarrow> \<lparr> hr_delivery = Nack, hr_logged = False \<rparr>
      | Some eventData \<Rightarrow>
         (case monitor_normalizeMessage getTime eventData (acc_accountId account) of
            Inl err \<Rightarrow> \<lparr> hr_delivery = Nack, hr_logged = False \<rparr>
          | Inr None \<Rightarrow> \<lparr> hr_delivery = Ack, hr_logged = False \<rparr>
          | Inr (Some normalized) \<Rightarrow>
             \<lparr> hr_delivery = Ack, hr_logged = checkMessagePolicy normalized account \<rparr>))"

section \<open>Webhook endpoint (webhook-server.ts)\<close>

datatype reply_body = TextReply string | EmptyReply | ErrorReply string

text \<open>
  One POST to \<open>/webhook/googlechat\<close>: the status and JSON body sent, the normalized
  message the handler built (if any), and the events passed to \<open>onMessage\<close>. The optional
  callback \<open>onMessage\<close> returns \<open>False\<close> when its promise rejects.
\<close>

record webhook_result =
  res_status :: nat
  res_body :: reply_body
  res_normalized :: "NormalizedGoogleChatMessage option"
  res_delivered :: "GoogleChatEvent list"

definition welcomeText :: string where
  "welcomeText =
     ''Hello! I'' @ [CHR 0x27] @ ''m Clawdbot, your personal AI assistant. Send me a message to get started!''"

definition internalError :: webhook_result where
  "internalError =
     \<lparr> res_status = 500, res_body = ErrorReply ''Internal server error'',
       res_normalized = None, res_delivered = [] \<rparr>"

definition webhookPost ::
  "(string option \<Rightarrow> int option) \<Rightarrow> ResolvedGoogleChatAccount
     \<Rightarrow> (GoogleChatEvent \<Rightarrow> bool) option \<Rightarrow> GoogleChatEvent \<Rightarrow> webhook_result" where
  "webhookPost getTime account onMessage event =
     (let other = \<lparr> res_status = 200, res_body = EmptyReply,
                     res_normalized = None, res_delivered = [] \<rparr>
      in if e_type event = Some ''ADDED_TO_SPACE''
         then \<lparr> res_status = 200, res_body = TextReply welcomeText,
                res_normalized = None, res_delivered = [] \<rparr>
         else if e_type event = Some ''MESSAGE''
         then (case webhook_normalizeMessage getTime event (acc_accountId account) of
                 Inl err \<Rightarrow> internalError
               | Inr None \<Rightarrow> other
               | Inr (Some normalized) \<Rightarrow>
                  (let reply =
                         ''Got your message! (Clawdbot Google Chat integration is working)''
                         @ [CHR 0x0A, CHR 0x0A] @ ''You said: '' @ [CHR 0x22]
                         @ msg_text normalized @ [CHR 0x22]
                   in case onMessage of
                        None \<Rightarrow>
                          \<lparr> res_status = 200, res_body = TextReply reply,
                            res_normalized = Some normalized, res_delivered = [] \<rparr>
                      | Some handler \<Rightarrow>
                          if handler event
                          then \<lparr> res_status = 200, res_body = TextReply reply,
                                 res_normalized = Some normalized, res_delivered = [event] \<rparr>
                          else internalError \<lparr> res_normalized := Some normalized,
                                               res_delivered := [event] \<rparr>))
         else other)"

section \<open>Account resolution (accounts.ts)\<close>

definition emptyAccountConfig :: GoogleChatAccountConfig where
  "emptyAccountConfig =
     \<lparr> cfg_name = None, cfg_enabled = None, cfg_projectId = None,
       cfg_subscriptionName = None, cfg_credentialsPath = None, dmPolicy = None,
       allowFrom = None, spacePolicy = None, allowSpaces = None, historyLimit = None,
       dmHistoryLimit = None, textChunkLimit = None, messagePrefix = None \<rparr>"

definition listConfiguredAccountIds :: "ClawdbotConfig \<Rightarrow> string list" where
  "listConfiguredAccountIds cfg =
     (case googlechat cfg of
        None \<Rightarrow> []
      | Some g \<Rightarrow>
         (case accounts g of
            None \<Rightarrow> []
          | Some accs \<Rightarrow> filter (\<lambda>k. k \<noteq> []) (map fst accs)))"

definition resolveAccountConfig ::
  "ClawdbotConfig \<Rightarrow> string \<Rightarrow> GoogleChatAccountConfig option" where
  "resolveAccountConfig cfg accountId =
     (case googlechat cfg of
        None \<Rightarrow> None
      | Some g \<Rightarrow>
         (case accounts g of
            None \<Rightarrow> None
          | Some accs \<Rightarrow> map_of accs accountId))"

definition pick :: "'a option \<Rightarrow> 'a option \<Rightarrow> 'a option" where
  \<comment> \<open>one property of \<open>{ ...base, ...account }\<close>: the account's own property wins\<close>
  "pick b a = (case a of Some v \<Rightarrow> Some v | None \<Rightarrow> b)"

definition spread ::
  "GoogleChatAccountConfig \<Rightarrow> GoogleChatAccountConfig \<Rightarrow> GoogleChatAccountConfig" where
  "spread b a =
     \<lparr> cfg_name = pick (cfg_name b) (cfg_name a),
       cfg_enabled = pick (cfg_enabled b) (cfg_enabled a),
       cfg_projectId = pick (cfg_projectId b) (cfg_projectId a),
       cfg_subscriptionName = pick (cfg_subscriptionName b) (cfg_subscriptionName a),
       cfg_credentialsPath = pick (cfg_credentialsPath b) (cfg_credentialsPath a),
       dmPolicy = pick (dmPolicy b) (dmPolicy a),
       allowFrom = pick (allowFrom b) (allowFrom a),
       spacePolicy = pick (spacePolicy b) (spacePolicy a),
       allowSpaces = pick (allowSpaces b) (allowSpaces a),
       historyLimit = pick (historyLimit b) (historyLimit a),
       dmHistoryLimit = pick (dmHistoryLimit b) (dmHistoryLimit a),
       textChunkLimit = pick (textChunkLimit b) (textChunkLimit a),
       messagePrefix = pick (messagePrefix b) (messagePrefix a) \<rparr>"

definition baseConfig :: "ClawdbotConfig \<Rightarrow> GoogleChatAccountConfig" where
  \<comment> \<open>\<open>const { accounts: _ignored, ...base } = cfg.googlechat ?? {}\<close>\<close>
  "baseConfig cfg = (case googlechat cfg of None \<Rightarrow> emptyAccountConfig | Some g \<Rightarrow> base g)"

definition mergeGoogleChatAccountConfig ::
  "ClawdbotConfig \<Rightarrow> string \<Rightarrow> GoogleChatAccountConfig" where
  "mergeGoogleChatAccountConfig cfg accountId =
     spread (baseConfig cfg) (orDefault (resolveAccountConfig cfg accountId) emptyAccountConfig)"

text \<open>
  \<open>normalizeAccountId\<close> and \<open>DEFAULT_ACCOUNT_ID\<close> come from the routing module
  (\<open>routing/session-key.js\<close>); they are parameters here.
\<close>

definition resolveGoogleChatAccount ::
  "(string option \<Rightarrow> string) \<Rightarrow> ClawdbotConfig \<Rightarrow> string option
     \<Rightarrow> ResolvedGoogleChatAccount" where
  "resolveGoogleChatAccount normalizeAccountId cfg accountId =
     (let baseEnabled =
            (case googlechat cfg of
               None \<Rightarrow> True
             | Some g \<Rightarrow> cfg_enabled (base g) \<noteq> Some False);
          normalized = normalizeAccountId accountId;
          merged = mergeGoogleChatAccountConfig cfg normalized;
          accountEnabled = (cfg_enabled merged \<noteq> Some False);
          enabled = (baseEnabled \<and> accountEnabled)
      in \<lparr> acc_accountId = normalized,
           acc_enabled = enabled,
           acc_name = (case cfg_name merged of
                         None \<Rightarrow> None
                       | Some n \<Rightarrow> if trim n = [] then None else Some (trim n)),
           acc_projectId = orDefault (cfg_projectId merged) [],
           acc_subscriptionName = orDefault (cfg_subscriptionName merged) [],
           acc_credentialsPath = cfg_credentialsPath merged,
           acc_config = merged \<rparr>)"

definition isConfigured :: "ResolvedGoogleChatAccount \<Rightarrow> bool" where
  \<comment> \<open>the plugin's \<open>isConfigured\<close>: both identifiers are non-empty after \<open>trim\<close>\<close>
  "isConfigured account =
     (trim (acc_projectId account) \<noteq> [] \<and> trim (acc_subscriptionName account) \<noteq> [])"

section \<open>Outbound text chunking (send.ts)\<close>

text \<open>
  \<open>s.lastIndexOf(c, fromIndex)\<close> for a one-character search string: the search runs
  backwards from \<open>fromIndex\<close> and gives the first index found, or \<open>-1\<close>.
\<close>

fun lastIndexOf :: "string \<Rightarrow> char \<Rightarrow> nat \<Rightarrow> int" where
  "lastIndexOf s c 0 = (if 0 < length s \<and> s ! 0 = c then 0 else - 1)"
| "lastIndexOf s c (Suc i) =
     (if Suc i < length s \<and> s ! Suc i = c then int (Suc i) else lastIndexOf s c i)"

text \<open>
  The choice of \<open>splitAt\<close> in the loop body. The limit is a character count, a natural
  number; \<open>splitAt < maxLength / 2\<close> is a comparison of reals, written \<open>2 * splitAt < maxLength\<close>.
\<close>

definition splitIndex :: "string \<Rightarrow> nat \<Rightarrow> int" where
  "splitIndex remaining maxLength =
     (let splitAt1 = lastIndexOf remaining (CHR 0x0A) maxLength;
          splitAt2 = (if splitAt1 = - 1 \<or> 2 * splitAt1 < int maxLength
                      then lastIndexOf remaining (CHR '' '') maxLength else splitAt1)
      in if splitAt2 = - 1 \<or> 2 * splitAt2 < int maxLength then int maxLength else splitAt2)"

text \<open>The \<open>while\<close> loop; it may run forever, and then the value is \<open>None\<close>.\<close>

partial_function (option) chunkLoop :: "nat \<Rightarrow> string \<Rightarrow> string list \<Rightarrow> string list option" where
  "chunkLoop maxLength remaining chunks =
     (if 0 < length remaining
      then (if length remaining \<le> maxLength then Some (chunks @ [remaining])
            else chunkLoop maxLength
                   (trimStart (drop (nat (splitIndex remaining maxLength)) remaining))
                   (chunks @ [take (nat (splitIndex remaining maxLength)) remaining]))
      else Some chunks)"

declare chunkLoop.simps [code]

definition chunkGoogleChatText :: "string \<Rightarrow> nat \<Rightarrow> string list option" where
  "chunkGoogleChatText text maxLength =
     (if length text \<le> maxLength then Some [text] else chunkLoop maxLength text [])"

section \<open>Example inputs\<close>

definition emptyEvent :: GoogleChatEvent where
  "emptyEvent =
     \<lparr> e_type = None, e_eventTime = None, e_message = None, e_user = None, e_space = None \<rparr>"

definition dmFrom :: "string option \<Rightarrow> NormalizedGoogleChatMessage" where
  \<comment> \<open>a direct message whose sender has the given email\<close>
  "dmFrom email =
     \<lparr> msg_provider = ''googlechat'', msg_accountId = ''default'', msg_messageId = None,
       msg_timestamp = None,
       msg_sender = \<lparr> sender_id = ''u1'', sender_name = None, sender_email = email \<rparr>,
       msg_chat = \<lparr> chat_id = ''d1'', chat_name = ''d1'', chat_type = Dm \<rparr>,
       msg_thread = None, msg_text = ''hi'', msg_raw = emptyEvent \<rparr>"

definition groupIn :: "string \<Rightarrow> NormalizedGoogleChatMessage" where
  \<comment> \<open>a message in the space with the given id\<close>
  "groupIn space =
     \<lparr> msg_provider = ''googlechat'', msg_accountId = ''default'', msg_messageId = None,
       msg_timestamp = None,
       msg_sender = \<lparr> sender_id = ''u1'', sender_name = None, sender_email = None \<rparr>,
       msg_chat = \<lparr> chat_id = space, chat_name = space, chat_type = Group \<rparr>,
       msg_thread = None, msg_text = ''hi'', msg_raw = emptyEvent \<rparr>"

definition accountWith :: "GoogleChatAccountConfig \<Rightarrow> ResolvedGoogleChatAccount" where
  "accountWith c =
     \<lparr> acc_accountId = ''default'', acc_enabled = True, acc_name = None,
       acc_projectId = ''p'', acc_subscriptionName = ''s'', acc_credentialsPath = None,
       acc_config = c \<rparr>"

definition humanSender :: RawSender where
  "humanSender =
     \<lparr> s_name = Some ''users/42'', s_displayName = Some ''Ann'',
       s_email = Some ''a@x.com'', s_type = Some ''HUMAN'' \<rparr>"

definition botSender :: RawSender where
  "botSender =
     \<lparr> s_name = Some ''users/7'', s_displayName = Some ''Helper'',
       s_email = None, s_type = Some ''BOT'' \<rparr>"

definition dmSpace :: RawSpace where
  "dmSpace = \<lparr> sp_name = Some ''spaces/AAA'', sp_type = Some ''DM'', sp_displayName = None \<rparr>"

definition exampleMessage :: "RawSender option \<Rightarrow> RawSpace option \<Rightarrow> GoogleChatMessage" where
  \<comment> \<open>a message with the given sender and space\<close>
  "exampleMessage sndr spc =
     \<lparr> m_name = Some ''spaces/AAA/messages/1'', m_sender = sndr,
       m_createTime = Some ''2026-01-01T00:00:00Z'', m_text = Some ''hello'',
       m_space = spc, m_thread = None, m_argumentText = None \<rparr>"

definition messageEvent :: "RawSender option \<Rightarrow> RawSpace option \<Rightarrow> GoogleChatEvent" where
  \<comment> \<open>an event of type MESSAGE whose message has the given sender and space\<close>
  "messageEvent sndr spc =
     emptyEvent \<lparr> e_type := Some ''MESSAGE'', e_message := Some (exampleMessage sndr spc) \<rparr>"

definition addedToSpaceAnn :: GoogleChatEvent where
  "addedToSpaceAnn =
     emptyEvent \<lparr> e_type := Some ''ADDED_TO_SPACE'',
       e_user := Some \<lparr> u_name = None, u_displayName = Some ''Ann'', u_email = None \<rparr> \<rparr>"

definition twoLines :: string where
  "twoLines = ''line one'' @ [CHR 0x0A] @ ''line two'' @ [CHR 0x0A]"

definition exampleText :: string where
  "exampleText = twoLines @ replicate 5000 (CHR ''x'')"

text \<open>
  Modelled from the spec: \<open>normalizeAccountId\<close> of the routing module is not among the
  sources; the spec says that resolution "normalizes a possibly-absent accountId to the
  default". This instance, with the identifier \<open>default\<close>, only instantiates the
  parameter of \<open>resolveGoogleChatAccount\<close> in the examples.
\<close>

definition normalizeToDefault :: "string option \<Rightarrow> string" where
  "normalizeToDefault accountId = orDefault accountId ''default''"

definition providerOnly :: "GoogleChatAccountConfig \<Rightarrow> ClawdbotConfig" where
  \<comment> \<open>a configuration with provider-wide fields and no \<open>accounts\<close> map\<close>
  "providerOnly b = \<lparr> googlechat = Some \<lparr> base = b, accounts = None \<rparr> \<rparr>"

lemmas fixtures = emptyEvent_def dmFrom_def groupIn_def accountWith_def emptyAccountConfig_def
  orDefault_def

lemmas raw_fixtures = emptyEvent_def humanSender_def botSender_def dmSpace_def
  exampleMessage_def messageEvent_def
  addedToSpaceAnn_def

section \<open>Policy check\<close>

text \<open>
  C1. The claim: under the allowlist kind a direct message is allowed iff the sender's
  email, case-normalized and trimmed, is in the DM allowlist. The check compares the email
  as it arrived: with \<open>allowFrom = ["a@x.com"]\<close> the sender \<open>a@x.com\<close> is allowed and
  \<open>b@x.com\<close> is denied, but the sender \<open>" A@X.com"\<close>, whose normalized email
  \<open>a@x.com\<close> is in the list, is denied.
\<close>

theorem allowlist_dm_match_is_exact:
  "checkMessagePolicy (dmFrom (Some ''a@x.com''))
     (accountWith (emptyAccountConfig \<lparr> dmPolicy := Some ''allowlist'', allowFrom := Some [''a@x.com''] \<rparr>))
   \<and> \<not> checkMessagePolicy (dmFrom (Some ''b@x.com''))
     (accountWith (emptyAccountConfig \<lparr> dmPolicy := Some ''allowlist'', allowFrom := Some [''a@x.com''] \<rparr>))
   \<and> normalizeEntry '' A@X.com'' \<in> set [''a@x.com'']
   \<and> \<not> checkMessagePolicy (dmFrom (Some '' A@X.com''))
     (accountWith (emptyAccountConfig \<lparr> dmPolicy := Some ''allowlist'', allowFrom := Some [''a@x.com''] \<rparr>))"
  by code_simp

text \<open>
  The group half of the allowlist kind: a group message is allowed iff its chat id is in
  the space allowlist.
\<close>

lemma allowlist_group_by_chat_id:
  "chat_type (msg_chat m) = Group \<Longrightarrow> spacePolicy (acc_config a) = Some ''allowlist'' \<Longrightarrow>
   checkMessagePolicy m a = (chat_id (msg_chat m) \<in> set (orDefault (allowSpaces (acc_config a)) []))"
  by (simp add: checkMessagePolicy_def orDefault_def)

text \<open>
  C2. The policy kind comes from the chat type: the DM policy (default \<open>pairing\<close>) for a
  direct message, the space policy (default \<open>disabled\<close>) otherwise. The kind
  \<open>disabled\<close> denies every message, \<open>open\<close> allows every message, \<open>pairing\<close> denies
  every message, and any kind other than \<open>open\<close> and \<open>allowlist\<close> denies.
\<close>

theorem policy_kind_selection:
  "let policy = (if chat_type (msg_chat m) = Dm
                 then orDefault (dmPolicy (acc_config a)) ''pairing''
                 else orDefault (spacePolicy (acc_config a)) ''disabled'')
   in (policy = ''disabled'' \<longrightarrow> \<not> checkMessagePolicy m a)
    \<and> (policy = ''open'' \<longrightarrow> checkMessagePolicy m a)
    \<and> (policy = ''pairing'' \<longrightarrow> \<not> checkMessagePolicy m a)
    \<and> (policy \<noteq> ''open'' \<and> policy \<noteq> ''allowlist'' \<longrightarrow> \<not> checkMessagePolicy m a)"
  by (simp add: checkMessagePolicy_def Let_def)

text \<open>
  Witness for C2: the two defaults, and \<open>disabled\<close>, \<open>open\<close> and \<open>pairing\<close> set
  explicitly, on a direct message and on a group message.
\<close>

theorem policy_kind_selection_witness:
  "\<not> checkMessagePolicy (dmFrom (Some ''a@x.com'')) (accountWith emptyAccountConfig)
   \<and> \<not> checkMessagePolicy (groupIn ''s1'') (accountWith emptyAccountConfig)
   \<and> \<not> checkMessagePolicy (dmFrom (Some ''a@x.com''))
         (accountWith (emptyAccountConfig \<lparr> dmPolicy := Some ''disabled'' \<rparr>))
   \<and> checkMessagePolicy (dmFrom (Some ''a@x.com''))
         (accountWith (emptyAccountConfig \<lparr> dmPolicy := Some ''open'' \<rparr>))
   \<and> checkMessagePolicy (groupIn ''s1'')
         (accountWith (emptyAccountConfig \<lparr> spacePolicy := Some ''open'' \<rparr>))
   \<and> \<not> checkMessagePolicy (groupIn ''s1'')
         (accountWith (emptyAccountConfig \<lparr> spacePolicy := Some ''pairing'' \<rparr>))"
  using policy_kind_selection [of "dmFrom (Some ''a@x.com'')" "accountWith emptyAccountConfig"]
    policy_kind_selection [of "groupIn ''s1''" "accountWith emptyAccountConfig"]
    policy_kind_selection [of "dmFrom (Some ''a@x.com'')"
      "accountWith (emptyAccountConfig \<lparr> dmPolicy := Some ''disabled'' \<rparr>)"]
    policy_kind_selection [of "dmFrom (Some ''a@x.com'')"
      "accountWith (emptyAccountConfig \<lparr> dmPolicy := Some ''open'' \<rparr>)"]
    policy_kind_selection [of "groupIn ''s1''"
      "accountWith (emptyAccountConfig \<lparr> spacePolicy := Some ''open'' \<rparr>)"]
    policy_kind_selection [of "groupIn ''s1''"
      "accountWith (emptyAccountConfig \<lparr> spacePolicy := Some ''pairing'' \<rparr>)"]
  by (simp add: fixtures Let_def)

text \<open>
  C10. Under the allowlist DM policy a direct message whose sender has no email is
  checked as if the email were the empty string: it is allowed iff the DM allowlist
  contains the empty string.
\<close>

theorem allowlist_dm_missing_email:
  "chat_type (msg_chat m) = Dm \<Longrightarrow> dmPolicy (acc_config a) = Some ''allowlist'' \<Longrightarrow>
   sender_email (msg_sender m) = None \<Longrightarrow>
   checkMessagePolicy m a = ([] \<in> set (orDefault (allowFrom (acc_config a)) []))
   \<and> checkMessagePolicy m a
       = checkMessagePolicy (m \<lparr> msg_sender := (msg_sender m) \<lparr> sender_email := Some [] \<rparr> \<rparr>) a"
  by (simp add: checkMessagePolicy_def orDefault_def)

text \<open>
  Witness for C10: a sender without email is allowed by a list that holds the empty
  string, denied by one that does not, and denied when no list is configured.
\<close>

theorem allowlist_dm_missing_email_witness:
  "checkMessagePolicy (dmFrom None)
     (accountWith (emptyAccountConfig \<lparr> dmPolicy := Some ''allowlist'', allowFrom := Some [''a@x.com'', []] \<rparr>))
   \<and> \<not> checkMessagePolicy (dmFrom None)
     (accountWith (emptyAccountConfig \<lparr> dmPolicy := Some ''allowlist'', allowFrom := Some [''a@x.com''] \<rparr>))
   \<and> \<not> checkMessagePolicy (dmFrom None)
     (accountWith (emptyAccountConfig \<lparr> dmPolicy := Some ''allowlist'' \<rparr>))"
  using allowlist_dm_missing_email [of "dmFrom None"
      "accountWith (emptyAccountConfig \<lparr> dmPolicy := Some ''allowlist'', allowFrom := Some [''a@x.com'', []] \<rparr>)"]
    allowlist_dm_missing_email [of "dmFrom None"
      "accountWith (emptyAccountConfig \<lparr> dmPolicy := Some ''allowlist'', allowFrom := Some [''a@x.com''] \<rparr>)"]
    allowlist_dm_missing_email [of "dmFrom None"
      "accountWith (emptyAccountConfig \<lparr> dmPolicy := Some ''allowlist'' \<rparr>)"]
  by (simp add: fixtures)

section \<open>Normalizer\<close>

text \<open>
  C3. For every raw event and account id the normalizer of the pull transport and the
  normalizer of the webhook transport give the same result: the same message, \<open>null\<close>
  for the same events, and the same error for the same events.
\<close>

theorem normalizers_agree:
  "monitor_normalizeMessage getTime event accountId = webhook_normalizeMessage getTime event accountId"
  by (simp add: monitor_normalizeMessage_def webhook_normalizeMessage_def)

text \<open>
  C4, as stated, fails: for an event of type MESSAGE whose message has no sender, or no
  space, both normalizers raise a TypeError instead of returning \<open>null\<close>.
\<close>

theorem normalize_raises_on_missing_sender:
  "monitor_normalizeMessage (\<lambda>_. None) (messageEvent None (Some dmSpace)) ''default'' = Inl TypeError
   \<and> webhook_normalizeMessage (\<lambda>_. None) (messageEvent None (Some dmSpace)) ''default'' = Inl TypeError
   \<and> monitor_normalizeMessage (\<lambda>_. None) (messageEvent (Some humanSender) None) ''default'' = Inl TypeError
   \<and> webhook_normalizeMessage (\<lambda>_. None) (messageEvent (Some humanSender) None) ''default'' = Inl TypeError"
  by (simp add: monitor_normalizeMessage_def webhook_normalizeMessage_def raw_fixtures)

text \<open>
  C4, amended. On every event whose message, when present, has what the declared type
  requires (a sender with a name, a space with a name), both normalizers return the
  canonical message or \<open>null\<close> and raise nothing. An event of another type or without
  a message, and a message whose sender is a bot, normalize to \<open>null\<close>, well-typed or not.
  In the remaining case, an event of type MESSAGE whose message is not from a bot and
  lacks the sender, the sender's name, the space or the space's name, both normalizers
  raise a TypeError; the handler of the pull transport then nacks the message, and the
  webhook answers with status 500 and the body "Internal server error".
\<close>

theorem normalize_total_on_typed_events:
  "(wellTypedEvent event \<longrightarrow>
      (\<exists>r. monitor_normalizeMessage getTime event accountId = Inr r)
      \<and> (\<exists>r. webhook_normalizeMessage getTime event accountId = Inr r))
   \<and> (e_type event \<noteq> Some ''MESSAGE'' \<or> e_message event = None \<longrightarrow>
      monitor_normalizeMessage getTime event accountId = Inr None
      \<and> webhook_normalizeMessage getTime event accountId = Inr None)
   \<and> (e_message event = Some msg \<and> m_sender msg = Some sender
        \<and> s_type sender = Some ''BOT'' \<longrightarrow>
      monitor_normalizeMessage getTime event accountId = Inr None
      \<and> webhook_normalizeMessage getTime event accountId = Inr None)
   \<and> (e_type event = Some ''MESSAGE'' \<and> e_message event = Some msg
        \<and> \<not> wellTypedMessage msg \<and> \<not> senderIsBot msg \<longrightarrow>
      monitor_normalizeMessage getTime event accountId = Inl TypeError
      \<and> webhook_normalizeMessage getTime event accountId = Inl TypeError
      \<and> hr_delivery (messageHandler getTime account (Some event)) = Nack
      \<and> webhookPost getTime account onMessage event = internalError)"
proof (intro conjI impI)
  assume "wellTypedEvent event"
  then show "\<exists>r. monitor_normalizeMessage getTime event accountId = Inr r"
    by (auto simp: wellTypedEvent_def wellTypedMessage_def monitor_normalizeMessage_def
        Let_def split: option.splits)
next
  assume "wellTypedEvent event"
  then show "\<exists>r. webhook_normalizeMessage getTime event accountId = Inr r"
    by (auto simp: wellTypedEvent_def wellTypedMessage_def webhook_normalizeMessage_def
        Let_def split: option.splits)
next
  assume "e_type event \<noteq> Some ''MESSAGE'' \<or> e_message event = None"
  then show "monitor_normalizeMessage getTime event accountId = Inr None"
    by (auto simp: monitor_normalizeMessage_def)
next
  assume "e_type event \<noteq> Some ''MESSAGE'' \<or> e_message event = None"
  then show "webhook_normalizeMessage getTime event accountId = Inr None"
    by (auto simp: webhook_normalizeMessage_def)
next
  assume "e_message event = Some msg \<and> m_sender msg = Some sender
            \<and> s_type sender = Some ''BOT''"
  then show "monitor_normalizeMessage getTime event accountId = Inr None"
    by (simp add: monitor_normalizeMessage_def)
next
  assume "e_message event = Some msg \<and> m_sender msg = Some sender
            \<and> s_type sender = Some ''BOT''"
  then show "webhook_normalizeMessage getTime event accountId = Inr None"
    by (simp add: webhook_normalizeMessage_def)
next
  assume h: "e_type event = Some ''MESSAGE'' \<and> e_message event = Some msg
            \<and> \<not> wellTypedMessage msg \<and> \<not> senderIsBot msg"
  then have m: "\<And>a. monitor_normalizeMessage getTime event a = Inl TypeError"
    by (auto simp: monitor_normalizeMessage_def wellTypedMessage_def senderIsBot_def
        Let_def split: option.splits)
  from h have w: "\<And>a. webhook_normalizeMessage getTime event a = Inl TypeError"
    by (auto simp: webhook_normalizeMessage_def wellTypedMessage_def senderIsBot_def
        Let_def split: option.splits)
  show "monitor_normalizeMessage getTime event accountId = Inl TypeError" by (rule m)
  show "webhook_normalizeMessage getTime event accountId = Inl TypeError" by (rule w)
  show "hr_delivery (messageHandler getTime account (Some event)) = Nack"
    by (simp add: messageHandler_def m)
  show "webhookPost getTime account onMessage event = internalError"
    using h by (simp add: webhookPost_def w)
qed

text \<open>
  Witness for C4: a well-typed direct message from a human sender, an event of another
  type, a bot's message that has no space, and a human's message that has no space.
\<close>

theorem normalize_total_on_typed_events_witness:
  "(\<exists>r. monitor_normalizeMessage (\<lambda>_. None) (messageEvent (Some humanSender) (Some dmSpace)) ''default'' = Inr r)
   \<and> (\<exists>r. webhook_normalizeMessage (\<lambda>_. None) (messageEvent (Some humanSender) (Some dmSpace)) ''default'' = Inr r)
   \<and> monitor_normalizeMessage (\<lambda>_. None) addedToSpaceAnn ''default'' = Inr None
   \<and> webhook_normalizeMessage (\<lambda>_. None) addedToSpaceAnn ''default'' = Inr None
   \<and> monitor_normalizeMessage (\<lambda>_. None) (messageEvent (Some botSender) None) ''default'' = Inr None
   \<and> webhook_normalizeMessage (\<lambda>_. None) (messageEvent (Some botSender) None) ''default'' = Inr None
   \<and> monitor_normalizeMessage (\<lambda>_. None) (messageEvent (Some humanSender) None) ''default'' = Inl TypeError
   \<and> webhook_normalizeMessage (\<lambda>_. None) (messageEvent (Some humanSender) None) ''default'' = Inl TypeError
   \<and> hr_delivery (messageHandler (\<lambda>_. None) (accountWith emptyAccountConfig)
         (Some (messageEvent (Some humanSender) None))) = Nack
   \<and> webhookPost (\<lambda>_. None) (accountWith emptyAccountConfig) None
         (messageEvent (Some humanSender) None) = internalError"
  using normalize_total_on_typed_events [where event = "messageEvent (Some humanSender) (Some dmSpace)"
      and getTime = "\<lambda>_. None" and accountId = "''default''"
      and msg = "exampleMessage (Some humanSender) (Some dmSpace)" and sender = humanSender
      and account = "accountWith emptyAccountConfig" and onMessage = None]
    normalize_total_on_typed_events [where event = addedToSpaceAnn
      and getTime = "\<lambda>_. None" and accountId = "''default''"
      and msg = "exampleMessage None None" and sender = humanSender
      and account = "accountWith emptyAccountConfig" and onMessage = None]
    normalize_total_on_typed_events [where event = "messageEvent (Some botSender) None"
      and getTime = "\<lambda>_. None" and accountId = "''default''"
      and msg = "exampleMessage (Some botSender) None" and sender = botSender
      and account = "accountWith emptyAccountConfig" and onMessage = None]
    normalize_total_on_typed_events [where event = "messageEvent (Some humanSender) None"
      and getTime = "\<lambda>_. None" and accountId = "''default''"
      and msg = "exampleMessage (Some humanSender) None" and sender = humanSender
      and account = "accountWith emptyAccountConfig" and onMessage = None]
  by (simp add: wellTypedEvent_def wellTypedMessage_def senderIsBot_def raw_fixtures
      exampleMessage_def)

section \<open>Webhook endpoint\<close>

text \<open>
  C7, as stated, fails: for the event \<open>ADDED_TO_SPACE\<close> with user \<open>Ann\<close> the reply is
  the fixed welcome text, and "Ann" does not occur in it.
\<close>

theorem welcome_does_not_name_user:
  "res_body (webhookPost (\<lambda>_. None) (accountWith emptyAccountConfig) None addedToSpaceAnn)
     = TextReply welcomeText
   \<and> \<not> includes_str welcomeText ''Ann''"
  by (simp add: webhookPost_def raw_fixtures welcomeText_def)

text \<open>
  C7, amended. For every event of type \<open>ADDED_TO_SPACE\<close>, whoever the user, the
  response has status 200 and the fixed welcome text, no canonical message is built and
  nothing is passed to \<open>onMessage\<close>.
\<close>

theorem added_to_space_reply:
  "e_type event = Some ''ADDED_TO_SPACE'' \<Longrightarrow>
     webhookPost getTime account onMessage event =
       \<lparr> res_status = 200, res_body = TextReply welcomeText,
         res_normalized = None, res_delivered = [] \<rparr>"
  by (simp add: webhookPost_def)

text \<open>Witness for C7: the event with user \<open>Ann\<close>.\<close>

theorem added_to_space_reply_witness:
  "webhookPost (\<lambda>_. None) (accountWith emptyAccountConfig) None addedToSpaceAnn =
       \<lparr> res_status = 200, res_body = TextReply welcomeText,
         res_normalized = None, res_delivered = [] \<rparr>"
  using added_to_space_reply [of addedToSpaceAnn "\<lambda>_. None" "accountWith emptyAccountConfig" None]
  by (simp add: raw_fixtures)

section \<open>Account resolution\<close>

lemma no_accounts_no_override:
  assumes "listConfiguredAccountIds cfg = []" "dflt \<noteq> []"
  shows "resolveAccountConfig cfg dflt = None"
proof (cases "googlechat cfg")
  case None
  then show ?thesis by (simp add: resolveAccountConfig_def)
next
  case (Some g)
  show ?thesis
  proof (cases "accounts g")
    case None
    with Some show ?thesis by (simp add: resolveAccountConfig_def)
  next
    case (Some accs)
    with \<open>googlechat cfg = Some g\<close> assms(1)
    have "filter (\<lambda>k. k \<noteq> []) (map fst accs) = []"
      by (simp add: listConfiguredAccountIds_def)
    then have "\<forall>k\<in>fst ` set accs. k = []" by (auto simp: filter_empty_conv)
    with assms(2) have "dflt \<notin> fst ` set accs" by auto
    then have "map_of accs dflt = None" by (simp add: map_of_eq_None_iff)
    with Some \<open>googlechat cfg = Some g\<close> show ?thesis by (simp add: resolveAccountConfig_def)
  qed
qed

lemma spread_empty: "spread b emptyAccountConfig = b"
  by (simp add: spread_def pick_def emptyAccountConfig_def)

text \<open>
  C8, amended. When no accounts are configured, resolving without an account id gives the
  default identifier; the account is enabled iff the provider-wide \<open>enabled\<close> is not
  \<open>false\<close>, and it is usable iff the provider-wide project identifier and subscription
  identifier are both non-empty after trimming.
\<close>

theorem resolve_without_accounts:
  assumes "listConfiguredAccountIds cfg = []"
    and "normalizeAccountId None = dflt" and "dflt \<noteq> []"
  shows "acc_accountId (resolveGoogleChatAccount normalizeAccountId cfg None) = dflt
    \<and> acc_enabled (resolveGoogleChatAccount normalizeAccountId cfg None)
        = (cfg_enabled (baseConfig cfg) \<noteq> Some False)
    \<and> isConfigured (resolveGoogleChatAccount normalizeAccountId cfg None)
        = (trim (orDefault (cfg_projectId (baseConfig cfg)) []) \<noteq> []
           \<and> trim (orDefault (cfg_subscriptionName (baseConfig cfg)) []) \<noteq> [])"
proof -
  have "mergeGoogleChatAccountConfig cfg dflt = baseConfig cfg"
    using no_accounts_no_override [OF assms(1) assms(3)]
    by (simp add: mergeGoogleChatAccountConfig_def orDefault_def spread_empty)
  with assms(2) show ?thesis
    by (auto simp: resolveGoogleChatAccount_def isConfigured_def Let_def baseConfig_def
        emptyAccountConfig_def split: option.splits)
qed

text \<open>
  Witness for C8: a configuration with a provider-wide project and subscription and no
  accounts resolves to the enabled, usable account \<open>default\<close>.
\<close>

theorem resolve_without_accounts_witness:
  "acc_accountId (resolveGoogleChatAccount normalizeToDefault
      (providerOnly (emptyAccountConfig \<lparr> cfg_projectId := Some ''proj'', cfg_subscriptionName := Some ''sub'' \<rparr>)) None) = ''default''
   \<and> acc_enabled (resolveGoogleChatAccount normalizeToDefault
      (providerOnly (emptyAccountConfig \<lparr> cfg_projectId := Some ''proj'', cfg_subscriptionName := Some ''sub'' \<rparr>)) None)
   \<and> isConfigured (resolveGoogleChatAccount normalizeToDefault
      (providerOnly (emptyAccountConfig \<lparr> cfg_projectId := Some ''proj'', cfg_subscriptionName := Some ''sub'' \<rparr>)) None)"
  using resolve_without_accounts [of
      "providerOnly (emptyAccountConfig \<lparr> cfg_projectId := Some ''proj'', cfg_subscriptionName := Some ''sub'' \<rparr>)"
      normalizeToDefault "''default''"]
  by (simp add: providerOnly_def listConfiguredAccountIds_def normalizeToDefault_def orDefault_def
      baseConfig_def emptyAccountConfig_def trim_def trimStart_def trimEnd_def isWhiteSpace_def)

text \<open>
  C8, as stated, fails: the empty configuration resolves to a default account that is not
  usable (both identifiers are empty), and a configuration whose provider-wide
  \<open>enabled\<close> is \<open>false\<close> resolves to a default account that is not enabled.
\<close>

theorem default_account_not_always_usable:
  "\<not> isConfigured (resolveGoogleChatAccount normalizeToDefault \<lparr> googlechat = None \<rparr> None)
   \<and> \<not> acc_enabled (resolveGoogleChatAccount normalizeToDefault
        (providerOnly (emptyAccountConfig \<lparr> cfg_enabled := Some False \<rparr>)) None)"
  by code_simp

section \<open>Chunking\<close>

lemma lastIndexOf_range:
  "lastIndexOf s c n = - 1 \<or> (0 \<le> lastIndexOf s c n \<and> lastIndexOf s c n \<le> int n)"
  by (induction n) auto

lemma lastIndexOf_skip:
  "k \<le> i \<Longrightarrow> (\<forall>j. k < j \<and> j \<le> i \<longrightarrow> \<not> (j < length s \<and> s ! j = c))
     \<Longrightarrow> lastIndexOf s c i = lastIndexOf s c k"
proof (induction i)
  case 0
  then show ?case by simp
next
  case (Suc i)
  show ?case
  proof (cases "k = Suc i")
    case True
    then show ?thesis by simp
  next
    case False
    with Suc.prems have le: "k \<le> i" by simp
    from Suc.prems le have "\<not> (Suc i < length s \<and> s ! Suc i = c)" by auto
    then have "lastIndexOf s c (Suc i) = lastIndexOf s c i" by auto
    also have "\<dots> = lastIndexOf s c k" using Suc.IH le Suc.prems by auto
    finally show ?thesis .
  qed
qed

lemma lastIndexOf_hit:
  "k < length s \<Longrightarrow> s ! k = c \<Longrightarrow> lastIndexOf s c k = int k"
  by (cases k) auto

lemma splitIndex_bounds:
  assumes "1 \<le> m"
  shows "1 \<le> splitIndex r m \<and> splitIndex r m \<le> int m \<and> int m \<le> 2 * splitIndex r m"
proof -
  have a: "lastIndexOf r (CHR 0x0A) m = - 1 \<or> (0 \<le> lastIndexOf r (CHR 0x0A) m \<and> lastIndexOf r (CHR 0x0A) m \<le> int m)"
    by (rule lastIndexOf_range)
  have b: "lastIndexOf r (CHR '' '') m = - 1 \<or> (0 \<le> lastIndexOf r (CHR '' '') m \<and> lastIndexOf r (CHR '' '') m \<le> int m)"
    by (rule lastIndexOf_range)
  from a b assms show ?thesis
    unfolding splitIndex_def Let_def by (auto split: if_splits)
qed

lemma trimStart_shorter: "length (trimStart s) \<le> length s"
  by (simp add: trimStart_def length_dropWhile_le)

lemma trimStart_separator: "takeWhile isWhiteSpace s @ trimStart s = s"
  by (simp add: trimStart_def)

lemma chunkLoop_total:
  assumes m: "1 \<le> m"
  shows "\<exists>out seps. chunkLoop m r cs = Some (cs @ out)
           \<and> (\<forall>c\<in>set out. length c \<le> m)
           \<and> length seps = length out
           \<and> (\<forall>s\<in>set seps. \<forall>ch\<in>set s. isWhiteSpace ch)
           \<and> concat (map2 (@) out seps) = r"
proof (induction r arbitrary: cs rule: length_induct)
  case (1 r)
  show ?case
  proof (cases "r = []")
    case True
    then have "chunkLoop m r cs = Some (cs @ [])"
      by (subst chunkLoop.simps) simp
    moreover have "concat (map2 (@) ([] :: string list) []) = r" using True by simp
    ultimately show ?thesis by (intro exI[of _ "[]"]) simp
  next
    case False
    show ?thesis
    proof (cases "length r \<le> m")
      case True
      with False have "chunkLoop m r cs = Some (cs @ [r])"
        by (subst chunkLoop.simps) simp
      then show ?thesis using True
        by (intro exI[of _ "[r]"] exI[of _ "[[]]"]) simp
    next
      case long: False
      define k where "k = nat (splitIndex r m)"
      define rest where "rest = trimStart (drop k r)"
      have kb: "1 \<le> k" "k \<le> m" using splitIndex_bounds[OF m, of r] by (auto simp: k_def)
      have "length rest \<le> length (drop k r)" unfolding rest_def by (rule trimStart_shorter)
      with kb False have "length rest < length r" by (cases r) auto
      with "1.IH" obtain out seps where
        run: "chunkLoop m rest (cs @ [take k r]) = Some ((cs @ [take k r]) @ out)"
        and len: "\<forall>c\<in>set out. length c \<le> m"
        and ls: "length seps = length out"
        and ws: "\<forall>s\<in>set seps. \<forall>ch\<in>set s. isWhiteSpace ch"
        and cat: "concat (map2 (@) out seps) = rest"
        by blast
      have step: "chunkLoop m r cs = chunkLoop m rest (cs @ [take k r])"
        using False long by (subst chunkLoop.simps) (simp add: k_def rest_def)
      let ?sep = "takeWhile isWhiteSpace (drop k r)"
      have "chunkLoop m r cs = Some (cs @ (take k r # out))" using step run by simp
      moreover have "\<forall>c\<in>set (take k r # out). length c \<le> m" using len kb by simp
      moreover have "length (?sep # seps) = length (take k r # out)" using ls by simp
      moreover have "\<forall>s\<in>set (?sep # seps). \<forall>ch\<in>set s. isWhiteSpace ch"
        using ws by (auto dest: set_takeWhileD)
      moreover have "concat (map2 (@) (take k r # out) (?sep # seps)) = r"
      proof -
        have "concat (map2 (@) (take k r # out) (?sep # seps)) = take k r @ ?sep @ rest"
          using cat by simp
        also have "\<dots> = take k r @ drop k r"
          unfolding rest_def by (simp add: trimStart_separator)
        finally show ?thesis by simp
      qed
      ultimately show ?thesis by blast
    qed
  qed
qed

lemma chunkLoop_stuck:
  assumes "chunkLoop m r cs = Some y"
  shows "\<not> (m = 0 \<and> r = ''a'')"
  using assms
proof (induct rule: chunkLoop.raw_induct [rotated, consumes 1, case_names step])
  case (step f m r cs y)
  show ?case
  proof
    assume h: "m = 0 \<and> r = ''a''"
    have s: "splitIndex ''a'' 0 = 0" by (simp add: splitIndex_def)
    have t: "trimStart ''a'' = ''a''" by (simp add: trimStart_def isWhiteSpace_def)
    from step(2) h have "f 0 ''a'' (cs @ [[]]) = Some y" by (simp add: s t)
    with step(1) show False by blast
  qed
qed

text \<open>
  C5, as stated for every limit, fails at the limit 0: on the text \<open>a\<close> the loop pushes
  an empty chunk and keeps the whole text, forever; nothing is returned.
\<close>

theorem chunking_diverges_at_zero: "chunkGoogleChatText ''a'' 0 = None"
proof (cases "chunkGoogleChatText ''a'' 0")
  case None
  then show ?thesis .
next
  case (Some y)
  then have "chunkLoop 0 ''a'' [] = Some y" by (simp add: chunkGoogleChatText_def)
  with chunkLoop_stuck show ?thesis by blast
qed

text \<open>
  C5, amended. A text no longer than the limit gives exactly one chunk, the text itself
  (for every limit). For every limit of at least 1 and every text, chunking returns
  chunks each no longer than the limit, and the text is the concatenation of the chunks,
  each followed by a separator of white space only (the white space trimmed at that
  chunk boundary).
\<close>

theorem chunks_bounded_and_lossless:
  "(length text \<le> maxLength \<longrightarrow> chunkGoogleChatText text maxLength = Some [text])
   \<and> (1 \<le> maxLength \<longrightarrow>
        (\<exists>chunks seps. chunkGoogleChatText text maxLength = Some chunks
           \<and> (\<forall>c\<in>set chunks. length c \<le> maxLength)
           \<and> length seps = length chunks
           \<and> (\<forall>s\<in>set seps. \<forall>ch\<in>set s. isWhiteSpace ch)
           \<and> concat (map2 (@) chunks seps) = text))"
proof (intro conjI impI)
  assume "length text \<le> maxLength"
  then show "chunkGoogleChatText text maxLength = Some [text]"
    by (simp add: chunkGoogleChatText_def)
next
  assume m: "1 \<le> maxLength"
  show "\<exists>chunks seps. chunkGoogleChatText text maxLength = Some chunks
           \<and> (\<forall>c\<in>set chunks. length c \<le> maxLength)
           \<and> length seps = length chunks
           \<and> (\<forall>s\<in>set seps. \<forall>ch\<in>set s. isWhiteSpace ch)
           \<and> concat (map2 (@) chunks seps) = text"
  proof (cases "length text \<le> maxLength")
    case True
    then have "chunkGoogleChatText text maxLength = Some [text]"
      by (simp add: chunkGoogleChatText_def)
    with True show ?thesis
      by (intro exI[of _ "[text]"] exI[of _ "[[]]"]) simp
  next
    case False
    then have "chunkGoogleChatText text maxLength = chunkLoop maxLength text []"
      by (simp add: chunkGoogleChatText_def)
    with chunkLoop_total [OF m, of "text" "[]"] show ?thesis by simp
  qed
qed

lemma hello_chunks:
  "chunkGoogleChatText ''hello world foo bar'' 7 = Some [''hello'', ''world'', ''foo bar'']"
  by code_simp

text \<open>
  Witness for C5: a short text, and a text split at its spaces into three chunks under
  the limit 7.
\<close>

theorem chunks_bounded_and_lossless_witness:
  "chunkGoogleChatText ''short'' 7 = Some [''short'']
   \<and> (\<exists>chunks seps. chunkGoogleChatText ''hello world foo bar'' 7 = Some chunks
         \<and> chunks = [''hello'', ''world'', ''foo bar'']
         \<and> (\<forall>c\<in>set chunks. length c \<le> 7)
         \<and> length seps = length chunks
         \<and> (\<forall>s\<in>set seps. \<forall>ch\<in>set s. isWhiteSpace ch)
         \<and> concat (map2 (@) chunks seps) = ''hello world foo bar'')"
  using chunks_bounded_and_lossless [of "''short''" 7]
    chunks_bounded_and_lossless [of "''hello world foo bar''" 7] hello_chunks
  by auto

text \<open>
  C9. For every text and every limit of at least 1, chunking returns. Whenever the
  remaining text is longer than the limit, the split index is at least 1 and at least
  half the limit (and at most the limit), so the remainder after the split is strictly
  shorter.
\<close>

theorem chunking_terminates:
  assumes "1 \<le> maxLength"
  shows "(\<exists>chunks. chunkGoogleChatText text maxLength = Some chunks)
    \<and> (maxLength < length remaining \<longrightarrow>
         1 \<le> splitIndex remaining maxLength
         \<and> int maxLength \<le> 2 * splitIndex remaining maxLength
         \<and> splitIndex remaining maxLength \<le> int maxLength
         \<and> length (trimStart (drop (nat (splitIndex remaining maxLength)) remaining))
             < length remaining)"
proof -
  have ret: "\<exists>chunks. chunkGoogleChatText text maxLength = Some chunks"
  proof (cases "length text \<le> maxLength")
    case True
    then show ?thesis by (simp add: chunkGoogleChatText_def)
  next
    case False
    with chunkLoop_total [OF assms, of "text" "[]"] show ?thesis
      by (auto simp: chunkGoogleChatText_def)
  qed
  have b: "1 \<le> splitIndex remaining maxLength \<and> splitIndex remaining maxLength \<le> int maxLength
           \<and> int maxLength \<le> 2 * splitIndex remaining maxLength"
    by (rule splitIndex_bounds [OF assms])
  have "length (trimStart (drop (nat (splitIndex remaining maxLength)) remaining))
          \<le> length (drop (nat (splitIndex remaining maxLength)) remaining)"
    by (rule trimStart_shorter)
  with b have "maxLength < length remaining \<Longrightarrow>
      length (trimStart (drop (nat (splitIndex remaining maxLength)) remaining)) < length remaining"
    by auto
  with ret b show ?thesis by blast
qed

text \<open>Witness for C9: the limit 7 on a text of 19 characters.\<close>

theorem chunking_terminates_witness:
  "(\<exists>chunks. chunkGoogleChatText ''hello world foo bar'' 7 = Some chunks)
   \<and> 1 \<le> splitIndex ''hello world foo bar'' 7
   \<and> 7 \<le> 2 * splitIndex ''hello world foo bar'' 7
   \<and> length (trimStart (drop (nat (splitIndex ''hello world foo bar'' 7)) ''hello world foo bar'')) < 19"
  using chunking_terminates [of 7 "''hello world foo bar''" "''hello world foo bar''"]
  by simp

lemma twoLines_length: "length twoLines = 18"
  by (simp add: twoLines_def)

lemma exampleText_length: "length exampleText = 5018"
  by (simp add: exampleText_def twoLines_length)

lemma exampleText_tail:
  "18 \<le> j \<Longrightarrow> j < 5018 \<Longrightarrow> exampleText ! j = CHR ''x''"
  by (simp add: exampleText_def twoLines_length nth_append)

lemma exampleText_head:
  "j < 18 \<Longrightarrow> exampleText ! j = twoLines ! j"
  by (simp add: exampleText_def twoLines_length nth_append)

lemma example_last_newline: "lastIndexOf exampleText (CHR 0x0A) 4000 = 17"
proof -
  have "lastIndexOf exampleText (CHR 0x0A) 4000 = lastIndexOf exampleText (CHR 0x0A) 17"
    by (rule lastIndexOf_skip) (auto simp: exampleText_tail)
  also have "\<dots> = int 17"
    by (rule lastIndexOf_hit) (simp_all add: exampleText_length exampleText_head twoLines_def)
  finally show ?thesis by simp
qed

lemma example_last_space: "lastIndexOf exampleText (CHR '' '') 4000 = 13"
proof -
  have "lastIndexOf exampleText (CHR '' '') 4000 = lastIndexOf exampleText (CHR '' '') 13"
  proof (rule lastIndexOf_skip)
    show "(13::nat) \<le> 4000" by simp
    show "\<forall>j. 13 < j \<and> j \<le> 4000 \<longrightarrow> \<not> (j < length exampleText \<and> exampleText ! j = CHR '' '')"
    proof (intro allI impI)
      fix j :: nat
      assume j: "13 < j \<and> j \<le> 4000"
      show "\<not> (j < length exampleText \<and> exampleText ! j = CHR '' '')"
      proof (cases "18 \<le> j")
        case True
        with j show ?thesis by (simp add: exampleText_tail)
      next
        case False
        with j have "j = 14 \<or> j = 15 \<or> j = 16 \<or> j = 17" by arith
        then show ?thesis
          by (auto simp: exampleText_head twoLines_def)
      qed
    qed
  qed
  also have "\<dots> = int 13"
    by (rule lastIndexOf_hit) (simp_all add: exampleText_length exampleText_head twoLines_def)
  finally show ?thesis by simp
qed

lemma example_split: "splitIndex exampleText 4000 = 4000"
  by (simp add: splitIndex_def example_last_newline example_last_space)

lemma example_chunks:
  "chunkGoogleChatText exampleText 4000
     = Some [twoLines @ replicate 3982 (CHR ''x''), replicate 1018 (CHR ''x'')]"
proof -
  have t: "take 4000 exampleText = twoLines @ replicate 3982 (CHR ''x'')"
    by (simp add: exampleText_def twoLines_def)
  have d: "drop 4000 exampleText = replicate 1018 (CHR ''x'')"
    by (simp add: exampleText_def twoLines_def)
  have w: "trimStart (replicate 1018 (CHR ''x'')) = replicate 1018 (CHR ''x'')"
    by (simp add: trimStart_def dropWhile_eq_self_iff isWhiteSpace_def)
  have "chunkGoogleChatText exampleText 4000 = chunkLoop 4000 exampleText []"
    by (simp add: chunkGoogleChatText_def exampleText_length)
  also have "\<dots> = chunkLoop 4000 (replicate 1018 (CHR ''x'')) [twoLines @ replicate 3982 (CHR ''x'')]"
    by (subst chunkLoop.simps) (simp add: exampleText_length example_split t d w)
  also have "\<dots> = Some [twoLines @ replicate 3982 (CHR ''x''), replicate 1018 (CHR ''x'')]"
    by (subst chunkLoop.simps) simp
  finally show ?thesis .
qed

text \<open>
  C6, amended. The text of two lines followed by 5000 times \<open>x\<close>, chunked with the
  limit 4000, is split at offset 4000: the last newline (index 17) and the last space
  (index 13) lie before half the limit. The first chunk is both lines, intact, followed
  by 3982 times \<open>x\<close>; the second chunk is the other 1018.
\<close>

theorem example_splits_at_limit:
  "chunkGoogleChatText exampleText 4000
     = Some [twoLines @ replicate 3982 (CHR ''x''), replicate 1018 (CHR ''x'')]
   \<and> length (twoLines @ replicate 3982 (CHR ''x'')) = 4000"
  using example_chunks by (simp add: twoLines_def)

text \<open>
  C6, as stated, fails: the last newline within the limit is at index 17, but the split
  index is 4000 and the first chunk is not the text before that newline.
\<close>

theorem example_not_split_at_newline:
  "lastIndexOf exampleText (CHR 0x0A) 4000 = 17
   \<and> splitIndex exampleText 4000 = 4000
   \<and> hd (the (chunkGoogleChatText exampleText 4000)) \<noteq> take 17 exampleText"
proof -
  have "length (hd (the (chunkGoogleChatText exampleText 4000))) = 4000"
    using example_chunks by (simp add: twoLines_def)
  moreover have "length (take 17 exampleText) = 17"
    by (simp add: exampleText_length)
  ultimately have "hd (the (chunkGoogleChatText exampleText 4000)) \<noteq> take 17 exampleText"
    by auto
  with example_last_newline example_split show ?thesis by simp
qed

end
